theory Spec2Isabelle
  imports Complex_Main "HOL-Library.AList"
begin

section \<open>Numbers\<close>

text \<open>
  A JavaScript number is modelled as a real number, or one of the three special values
  that the arithmetic of the program can produce from real operands. The rounding of
  IEEE doubles is not modelled: sums, quotients and products are the exact ones.
\<close>

datatype jsnum = Num real | PosInfinity | NegInfinity | NaN

text \<open>\<^verbatim>\<open>a / b\<close> on two finite numbers.\<close>

definition js_div :: "real \<Rightarrow> real \<Rightarrow> jsnum" where
  "js_div a b =
     (if b \<noteq> 0 then Num (a / b)
      else if a = 0 then NaN
      else if 0 < a then PosInfinity else NegInfinity)"

text \<open>\<^verbatim>\<open>x * c\<close> for a finite constant \<open>c\<close>.\<close>

fun js_mul :: "jsnum \<Rightarrow> real \<Rightarrow> jsnum" where
  "js_mul (Num a) c = Num (a * c)"
| "js_mul PosInfinity c = (if c = 0 then NaN else if 0 < c then PosInfinity else NegInfinity)"
| "js_mul NegInfinity c = (if c = 0 then NaN else if 0 < c then NegInfinity else PosInfinity)"
| "js_mul NaN c = NaN"

text \<open>\<^verbatim>\<open>Math.abs(n - x)\<close> for a finite \<open>n\<close>.\<close>

fun js_abs_diff :: "real \<Rightarrow> jsnum \<Rightarrow> jsnum" where
  "js_abs_diff n (Num x) = Num \<bar>n - x\<bar>"
| "js_abs_diff n PosInfinity = PosInfinity"
| "js_abs_diff n NegInfinity = PosInfinity"
| "js_abs_diff n NaN = NaN"

text \<open>\<^verbatim>\<open>x < y\<close>: every comparison with NaN is false.\<close>

fun js_lt :: "jsnum \<Rightarrow> jsnum \<Rightarrow> bool" where
  "js_lt (Num a) (Num b) = (a < b)"
| "js_lt (Num a) PosInfinity = True"
| "js_lt NegInfinity (Num b) = True"
| "js_lt NegInfinity PosInfinity = True"
| "js_lt _ _ = False"

text \<open>\<^verbatim>\<open>n === x\<close> for a finite \<open>n\<close>.\<close>

fun js_eq :: "real \<Rightarrow> jsnum \<Rightarrow> bool" where
  "js_eq n (Num x) = (n = x)"
| "js_eq n _ = False"

section \<open>Data model\<close>

record ident =
  userId :: string
  username :: string

text \<open>A submitted choice, \<^verbatim>\<open>{ number, userId, username }\<close>.\<close>

record choice = ident +
  number :: real

text \<open>A player of a room, as \<^verbatim>\<open>addPlayerToRoom\<close> builds it.\<close>

record player = ident +
  socketId :: "string option"
  avatar :: "string option"
  score :: int
  isEliminated :: bool
  hasSubmitted :: bool
  currentChoice :: "real option"
  isReady :: bool
  isGuest :: bool
  isConnected :: bool
  disconnectedAt :: "int option"

record scoreUpdate =
  scoreChange :: int
  newScore :: int

datatype validation = Valid | Invalid string

section \<open>Scoring engine (server/gameLogic.js)\<close>

definition calculateWinningNumber :: "choice list \<Rightarrow> jsnum \<times> jsnum" where
  "calculateWinningNumber choices =
     (let sum = foldl (\<lambda>acc choice. acc + number choice) 0 choices;
          average = js_div sum (real (length choices));
          winningNumber = js_mul average (8 / 10)
      in (average, winningNumber))"

text \<open>The loop of \<^verbatim>\<open>findWinner\<close>, with its two local variables as arguments.\<close>

fun findWinner_loop :: "choice list \<Rightarrow> jsnum \<Rightarrow> string option \<Rightarrow> jsnum \<Rightarrow> string option" where
  "findWinner_loop [] winningNumber closestPlayer closestDistance = closestPlayer"
| "findWinner_loop (c # cs) winningNumber closestPlayer closestDistance =
     (let distance = js_abs_diff (number c) winningNumber in
      if js_lt distance closestDistance
      then findWinner_loop cs winningNumber (Some (userId c)) distance
      else findWinner_loop cs winningNumber closestPlayer closestDistance)"

definition findWinner :: "player list \<Rightarrow> choice list \<Rightarrow> jsnum \<Rightarrow> string option" where
  "findWinner players choices winningNumber =
     findWinner_loop choices winningNumber None PosInfinity"

definition checkExactMatch :: "choice list \<Rightarrow> jsnum \<Rightarrow> bool" where
  "checkExactMatch choices winningNumber =
     list_ex (\<lambda>choice. js_eq (number choice) winningNumber) choices"

definition checkSpecialWin :: "choice list \<Rightarrow> string option" where
  "checkSpecialWin choices =
     (let hasZero = list_ex (\<lambda>c. number c = 0) choices;
          has100 = list_ex (\<lambda>c. number c = 100) choices
      in if hasZero \<and> has100
         then (case find (\<lambda>c. number c = 100) choices of
                 Some winner \<Rightarrow> Some (userId winner)
               | None \<Rightarrow> None)
         else None)"

text \<open>
  \<^verbatim>\<open>updates\<close> is an object keyed by user identifier: a later player with the same
  identifier overwrites the entry of an earlier one.
\<close>

fun applyScoreChanges_loop ::
  "player list \<Rightarrow> string option \<Rightarrow> int \<Rightarrow> (string \<rightharpoonup> scoreUpdate) \<Rightarrow> (string \<rightharpoonup> scoreUpdate)" where
  "applyScoreChanges_loop [] winnerId penalty updates = updates"
| "applyScoreChanges_loop (p # ps) winnerId penalty updates =
     (if isEliminated p
      then applyScoreChanges_loop ps winnerId penalty
             (updates(userId p \<mapsto> \<lparr>scoreChange = 0, newScore = score p\<rparr>))
      else if Some (userId p) = winnerId
      then applyScoreChanges_loop ps winnerId penalty
             (updates(userId p \<mapsto> \<lparr>scoreChange = 1, newScore = score p + 1\<rparr>))
      else applyScoreChanges_loop ps winnerId penalty
             (updates(userId p \<mapsto> \<lparr>scoreChange = penalty, newScore = score p + penalty\<rparr>)))"

definition applyScoreChanges ::
  "player list \<Rightarrow> string option \<Rightarrow> bool \<Rightarrow> nat list \<Rightarrow> (string \<rightharpoonup> scoreUpdate)" where
  "applyScoreChanges players winnerId isExactMatch activeRules =
     (let penalty = (if isExactMatch \<and> 2 \<in> set activeRules then - 2 else - 1)
      in applyScoreChanges_loop players winnerId penalty Map.empty)"

definition checkEliminations :: "player list \<Rightarrow> string list" where
  "checkEliminations players =
     map userId (filter (\<lambda>p. \<not> isEliminated p \<and> score p \<le> - 10) players)"

definition getActiveRules :: "nat \<Rightarrow> nat list" where
  "getActiveRules eliminationCount =
     (if eliminationCount \<ge> 2 then [1, 2] else []) @
     (if eliminationCount \<ge> 3 then [3] else [])"

definition validateChoice :: "real \<Rightarrow> choice list \<Rightarrow> nat list \<Rightarrow> string \<Rightarrow> validation" where
  "validateChoice choice allChoices activeRules uid =
     (if choice < 0 \<or> choice > 100 then Invalid ''Number must be between 0 and 100''
      else if 1 \<in> set activeRules \<and>
              find (\<lambda>c. number c = choice \<and> userId c \<noteq> uid) allChoices \<noteq> None
      then Invalid ''Duplicate numbers are invalid (Rule 1)''
      else Valid)"

definition isGameOver :: "player list \<Rightarrow> bool" where
  "isGameOver players =
     (let activePlayers = filter (\<lambda>p. \<not> isEliminated p) players
      in length activePlayers \<le> 1)"


section \<open>Room registry and presence (server/roomManager.js)\<close>

datatype phase = Waiting | Submission | Reveal | Scoring | Finished

text \<open>
  \<open>timerInterval\<close> records whether the room holds the handle of a running countdown.
  Times are milliseconds as \<^verbatim>\<open>Date.now()\<close> returns them; the current time is an
  argument of every operation that reads the clock.
\<close>

record room =
  lobbyId :: string
  gameId :: "string option"
  players :: "player list"
  roundNumber :: nat
  phase :: phase
  activeRules :: "nat list"
  eliminationCount :: nat
  roundTimer :: int
  timerInterval :: bool
  timeRemaining :: int
  roundStartTime :: "int option"
  currentRoundId :: "string option"
  createdAt :: int
  lastActivity :: int

text \<open>
  The registry is a JavaScript \<^verbatim>\<open>Map\<close>: an association list in insertion order,
  where setting an existing key keeps its place.
\<close>

type_synonym rooms = "(string \<times> room) list"

record lobbyData =
  round_timer :: "int option"

record playerData = ident +
  pd_socketId :: string
  pd_avatar :: "string option"
  pd_isGuest :: "bool option"

definition MAX_ROOMS :: nat where
  "MAX_ROOMS = 50"

definition getRoom :: "rooms \<Rightarrow> string \<Rightarrow> room option" where
  "getRoom rooms lid = map_of rooms lid"

definition deleteRoom :: "rooms \<Rightarrow> string \<Rightarrow> rooms" where
  "deleteRoom rooms lid = AList.delete lid rooms"

text \<open>
  The loop of \<^verbatim>\<open>cleanupOldestRooms\<close> over the entries sorted by last activity; it
  stops once the registry is down to 80 percent of \<open>MAX_ROOMS\<close>.
\<close>

fun cleanupOldestRooms_loop :: "(string \<times> int) list \<Rightarrow> int \<Rightarrow> rooms \<Rightarrow> rooms" where
  "cleanupOldestRooms_loop [] now rooms = rooms"
| "cleanupOldestRooms_loop ((lid, la) # rest) now rooms =
     (if real (length rooms) \<le> real MAX_ROOMS * (8 / 10) then rooms
      else if now - la > 10 * 60 * 1000
      then (case map_of rooms lid of
              Some room \<Rightarrow>
                if phase room = Waiting
                then cleanupOldestRooms_loop rest now (AList.delete lid rooms)
                else cleanupOldestRooms_loop rest now rooms
            | None \<Rightarrow> cleanupOldestRooms_loop rest now rooms)
      else cleanupOldestRooms_loop rest now rooms)"

definition cleanupOldestRooms :: "rooms \<Rightarrow> int \<Rightarrow> rooms" where
  "cleanupOldestRooms rooms now =
     (let sortedRooms =
            sort_key snd
              (map (\<lambda>(lid, room).
                      (lid, if lastActivity room \<noteq> 0 then lastActivity room else createdAt room))
                 rooms)
      in cleanupOldestRooms_loop sortedRooms now rooms)"

definition createRoom :: "rooms \<Rightarrow> string \<Rightarrow> lobbyData \<Rightarrow> int \<Rightarrow> rooms \<times> room" where
  "createRoom rooms lid ld now =
     (let rooms1 = (if length rooms \<ge> MAX_ROOMS then cleanupOldestRooms rooms now else rooms);
          timer = (case round_timer ld of None \<Rightarrow> 60 | Some t \<Rightarrow> if t = 0 then 60 else t);
          room = \<lparr> lobbyId = lid, gameId = None, players = [], roundNumber = 1,
                   phase = Waiting, activeRules = [], eliminationCount = 0,
                   roundTimer = timer, timerInterval = False, timeRemaining = timer,
                   roundStartTime = None, currentRoundId = None,
                   createdAt = now, lastActivity = now \<rparr>
      in (AList.update lid room rooms1, room))"

text \<open>
  \<^verbatim>\<open>find\<close> returns a reference to the first matching element, which the caller then
  mutates; \<^verbatim>\<open>findIndex\<close> followed by \<^verbatim>\<open>splice(i, 1)\<close> removes it.
\<close>

fun update_first :: "('a \<Rightarrow> bool) \<Rightarrow> ('a \<Rightarrow> 'a) \<Rightarrow> 'a list \<Rightarrow> 'a list" where
  "update_first P f [] = []"
| "update_first P f (x # xs) = (if P x then f x # xs else x # update_first P f xs)"

fun remove_first :: "('a \<Rightarrow> bool) \<Rightarrow> 'a list \<Rightarrow> 'a list" where
  "remove_first P [] = []"
| "remove_first P (x # xs) = (if P x then xs else x # remove_first P xs)"

definition addPlayerToRoom ::
  "rooms \<Rightarrow> string \<Rightarrow> playerData \<Rightarrow> int \<Rightarrow> rooms \<times> player option" where
  "addPlayerToRoom rooms lid pd now =
     (case getRoom rooms lid of
        None \<Rightarrow> (rooms, None)
      | Some room0 \<Rightarrow>
          let room = room0\<lparr>lastActivity := now\<rparr> in
          (case find (\<lambda>p. userId p = userId pd) (players room) of
             Some existingPlayer \<Rightarrow>
               (AList.update lid
                  (room\<lparr>players :=
                     update_first (\<lambda>p. userId p = userId pd)
                       (\<lambda>p. p\<lparr>socketId := Some (pd_socketId pd)\<rparr>) (players room)\<rparr>) rooms,
                Some (existingPlayer\<lparr>socketId := Some (pd_socketId pd)\<rparr>))
           | None \<Rightarrow>
               let player = \<lparr> userId = userId pd, username = username pd,
                               socketId = Some (pd_socketId pd), avatar = pd_avatar pd,
                               score = 0, isEliminated = False, hasSubmitted = False,
                               currentChoice = None, isReady = False,
                               isGuest = (case pd_isGuest pd of Some g \<Rightarrow> g | None \<Rightarrow> False),
                               isConnected = True, disconnectedAt = None \<rparr>
               in (AList.update lid (room\<lparr>players := players room @ [player]\<rparr>) rooms,
                   Some player)))"

definition removePlayerFromRoom ::
  "rooms \<Rightarrow> string \<Rightarrow> string \<Rightarrow> int \<Rightarrow> rooms \<times> player option" where
  "removePlayerFromRoom rooms lid sid now =
     (case getRoom rooms lid of
        None \<Rightarrow> (rooms, None)
      | Some room \<Rightarrow>
          (case find (\<lambda>p. socketId p = Some sid) (players room) of
             None \<Rightarrow> (rooms, None)
           | Some player \<Rightarrow>
               if phase room \<noteq> Waiting \<and> phase room \<noteq> Finished
               then
                 let mark = (\<lambda>p. p\<lparr>isConnected := False, disconnectedAt := Some now,
                                     socketId := None\<rparr>)
                 in (AList.update lid
                       (room\<lparr>players :=
                          update_first (\<lambda>p. socketId p = Some sid) mark (players room)\<rparr>) rooms,
                     Some (mark player))
               else
                 let room1 = room\<lparr>players :=
                               remove_first (\<lambda>p. socketId p = Some sid) (players room)\<rparr>;
                     rooms1 = AList.update lid room1 rooms
                 in if players room1 = [] \<and> phase room1 = Waiting
                    then (deleteRoom rooms1 lid, Some player)
                    else (rooms1, Some player)))"

section \<open>Round lifecycle (server/roomManager.js)\<close>

text \<open>
  The persistence collaborator is outside the program: where an operation reads the result
  of a database call, the result is an argument. Writes whose result is not read are left
  out. Of the broadcasts, those of \<^verbatim>\<open>submitChoice\<close> and the reveal of
  \<^verbatim>\<open>processRound\<close> are modelled.
\<close>

text \<open>
  \<^verbatim>\<open>startRound\<close> up to its \<^verbatim>\<open>await\<close> of the round record: everything it does
  to the room before it suspends.
\<close>

definition startRound :: "rooms \<Rightarrow> string \<Rightarrow> int \<Rightarrow> rooms" where
  "startRound rooms lid now =
     (case getRoom rooms lid of
        None \<Rightarrow> rooms
      | Some room \<Rightarrow>
          AList.update lid
            (room\<lparr> lastActivity := now,
                   players :=
                     map (\<lambda>player. if \<not> isEliminated player
                                    then player\<lparr>hasSubmitted := False, currentChoice := None\<rparr>
                                    else player) (players room),
                   phase := Submission,
                   timeRemaining := roundTimer room,
                   roundStartTime := Some now,
                   activeRules := getActiveRules (eliminationCount room) \<rparr>) rooms)"

definition startRoundTimer :: "rooms \<Rightarrow> string \<Rightarrow> rooms" where
  "startRoundTimer rooms lid =
     (case getRoom rooms lid of
        None \<Rightarrow> rooms
      | Some room \<Rightarrow> AList.update lid (room\<lparr>timerInterval := True\<rparr>) rooms)"

text \<open>
  \<^verbatim>\<open>startRound\<close> after the \<^verbatim>\<open>await\<close>: \<open>roundData\<close> is the identifier of the
  round record, or \<open>None\<close> when the insert failed.
\<close>

definition startRound_resume :: "rooms \<Rightarrow> string \<Rightarrow> string option \<Rightarrow> rooms" where
  "startRound_resume rooms lid roundData =
     (case getRoom rooms lid of
        None \<Rightarrow> rooms
      | Some room \<Rightarrow>
          let rooms1 = (case roundData of
                          None \<Rightarrow> rooms
                        | Some rid \<Rightarrow> AList.update lid (room\<lparr>currentRoundId := Some rid\<rparr>) rooms)
          in startRoundTimer rooms1 lid)"

text \<open>
  \<^verbatim>\<open>startGame\<close>: \<open>gameData\<close> is the identifier of the created game record (\<open>None\<close>
  when the insert failed), \<open>playersError\<close> says that the insert of the player records
  was issued and failed. On success the first round is started.
\<close>

definition startGame ::
  "rooms \<Rightarrow> string \<Rightarrow> string option \<Rightarrow> bool \<Rightarrow> int \<Rightarrow> rooms \<times> (string + string)" where
  "startGame rooms lid gameData playersError now =
     (case getRoom rooms lid of
        None \<Rightarrow> (rooms, Inl ''Room not found'')
      | Some room \<Rightarrow>
          (case gameData of
             None \<Rightarrow> (rooms, Inl ''Failed to create game'')
           | Some gid \<Rightarrow>
               let rooms1 = AList.update lid (room\<lparr>gameId := Some gid\<rparr>) rooms in
               if playersError then (rooms1, Inl ''Failed to create game players'')
               else (startRound rooms1 lid now, Inr gid)))"

text \<open>
  The number that a stored choice stands for. A player who has submitted holds the number
  that \<^verbatim>\<open>submitChoice\<close> stored; for \<^verbatim>\<open>null\<close> the value is the 0 that JavaScript
  arithmetic makes of it.
\<close>

definition currentNumber :: "player \<Rightarrow> real" where
  "currentNumber p = (case currentChoice p of Some n \<Rightarrow> n | None \<Rightarrow> 0)"

text \<open>
  The list \<^verbatim>\<open>otherChoices\<close> that \<^verbatim>\<open>submitChoice\<close> builds for the validation: the
  choices already stored by the other players who are not eliminated.
\<close>

definition otherChoices :: "player list \<Rightarrow> string \<Rightarrow> choice list" where
  "otherChoices ps uid =
     map (\<lambda>p. \<lparr>userId = userId p, username = [], number = currentNumber p\<rparr>)
       (filter (\<lambda>p. hasSubmitted p \<and> userId p \<noteq> uid \<and> \<not> isEliminated p) ps)"

datatype emit = PlayerSubmitted string string

record submitOutcome =
  error :: "string option"
  broadcast :: "emit list"
  scheduled :: bool

text \<open>
  \<^verbatim>\<open>submitChoice\<close> returns \<^verbatim>\<open>{ success: false, error }\<close> (here \<open>error = Some _\<close>)
  or \<^verbatim>\<open>{ success: true }\<close>; \<open>broadcast\<close> lists what it emits to the room and
  \<open>scheduled\<close> says whether it set the one-second timeout that calls
  \<^verbatim>\<open>processRound\<close>.
\<close>

definition submitChoice ::
  "rooms \<Rightarrow> string \<Rightarrow> string \<Rightarrow> real \<Rightarrow> int \<Rightarrow> rooms \<times> submitOutcome" where
  "submitChoice rooms lid uid choice now =
     (case getRoom rooms lid of
        None \<Rightarrow> (rooms, \<lparr>error = Some ''Room not found'', broadcast = [], scheduled = False\<rparr>)
      | Some room0 \<Rightarrow>
          let room = room0\<lparr>lastActivity := now\<rparr>;
              rooms1 = AList.update lid room rooms;
              fail = (\<lambda>msg. (rooms1, \<lparr>error = Some msg, broadcast = [], scheduled = False\<rparr>))
          in
          if phase room \<noteq> Submission then fail ''Not in submission phase''
          else
            (case find (\<lambda>p. userId p = uid) (players room) of
               None \<Rightarrow> fail ''Player not found''
             | Some player \<Rightarrow>
                 if \<not> isConnected player then fail ''You are disconnected. Please reconnect.''
                 else if isEliminated player then fail ''Player is eliminated''
                 else if hasSubmitted player then fail ''Already submitted''
                 else
                   (case validateChoice choice (otherChoices (players room) uid)
                           (activeRules room) uid of
                      Invalid reason \<Rightarrow> fail reason
                    | Valid \<Rightarrow>
                        let players1 =
                              update_first (\<lambda>p. userId p = uid)
                                (\<lambda>p. p\<lparr>currentChoice := Some choice, hasSubmitted := True\<rparr>)
                                (players room);
                            activePlayers =
                              filter (\<lambda>p. \<not> isEliminated p \<and> isConnected p) players1;
                            allSubmitted =
                              (length activePlayers > 0 \<and> list_all hasSubmitted activePlayers);
                            room1 = room\<lparr>players := players1\<rparr>;
                            room2 = (if allSubmitted then room1\<lparr>timerInterval := False\<rparr>
                                     else room1)
                        in (AList.update lid room2 rooms,
                            \<lparr>error = None,
                             broadcast = [PlayerSubmitted uid (username player)],
                             scheduled = allSubmitted\<rparr>))))"

definition endGame :: "rooms \<Rightarrow> string \<Rightarrow> rooms" where
  "endGame rooms lid =
     (case getRoom rooms lid of
        None \<Rightarrow> rooms
      | Some room \<Rightarrow> AList.update lid (room\<lparr>phase := Finished\<rparr>) rooms)"

text \<open>
  The reveal of \<^verbatim>\<open>processRound\<close>: the payload of \<^verbatim>\<open>round_reveal\<close>, and the
  exact-match flag that is handed to \<^verbatim>\<open>processScoring\<close> with the winner.
\<close>

record reveal =
  rv_choices :: "choice list"
  rv_average :: jsnum
  rv_winningNumber :: jsnum
  rv_winnerId :: "string option"
  rv_isExactMatch :: bool

datatype round_outcome = RoomAbsent | GameEnded | Revealed reveal

text \<open>\<^verbatim>\<open>!winnerId\<close> is true for \<^verbatim>\<open>null\<close> and for the empty string.\<close>

definition js_not :: "string option \<Rightarrow> bool" where
  "js_not v = (case v of None \<Rightarrow> True | Some s \<Rightarrow> s = [])"

text \<open>
  The list \<^verbatim>\<open>choices\<close> that \<^verbatim>\<open>processRound\<close> gathers: the choices of the players
  who have submitted, are not eliminated and are connected, in the order of the player list.
\<close>

definition gatherChoices :: "player list \<Rightarrow> choice list" where
  "gatherChoices ps =
     map (\<lambda>p. \<lparr>userId = userId p, username = username p, number = currentNumber p\<rparr>)
       (filter (\<lambda>p. hasSubmitted p \<and> \<not> isEliminated p \<and> isConnected p) ps)"

definition processRound :: "rooms \<Rightarrow> string \<Rightarrow> rooms \<times> round_outcome" where
  "processRound rooms lid =
     (case getRoom rooms lid of
        None \<Rightarrow> (rooms, RoomAbsent)
      | Some room0 \<Rightarrow>
          let room = room0\<lparr>phase := Reveal\<rparr>;
              rooms1 = AList.update lid room rooms;
              choices = gatherChoices (players room)
          in
          if length choices = 0 then (endGame rooms1 lid, GameEnded)
          else
            let connectedActivePlayers =
                  filter (\<lambda>p. \<not> isEliminated p \<and> isConnected p) (players room)
            in
            if length connectedActivePlayers = 0 then (endGame rooms1 lid, GameEnded)
            else
              let winnerId0 = (if 3 \<in> set (activeRules room) then checkSpecialWin choices
                               else None);
                  (average, winningNumber) = calculateWinningNumber choices;
                  winnerId = (if js_not winnerId0
                              then findWinner (players room) choices winningNumber
                              else winnerId0);
                  isExactMatch = checkExactMatch choices winningNumber
              in (rooms1,
                  Revealed \<lparr>rv_choices = choices, rv_average = average,
                            rv_winningNumber = winningNumber, rv_winnerId = winnerId,
                            rv_isExactMatch = isExactMatch\<rparr>))"

text \<open>The elimination loop of \<^verbatim>\<open>processScoring\<close> over the newly eliminated identifiers.\<close>

fun eliminate_loop :: "string list \<Rightarrow> room \<Rightarrow> room" where
  "eliminate_loop [] room = room"
| "eliminate_loop (uid # uids) room =
     (case find (\<lambda>p. userId p = uid) (players room) of
        Some player \<Rightarrow>
          eliminate_loop uids
            (room\<lparr>players :=
                     update_first (\<lambda>p. userId p = uid) (\<lambda>p. p\<lparr>isEliminated := True\<rparr>)
                       (players room),
                   eliminationCount := eliminationCount room + 1\<rparr>)
      | None \<Rightarrow> eliminate_loop uids room)"

datatype scoring_outcome = ScoringRoomAbsent | ThenEndGame | ThenNextRound

definition processScoring ::
  "rooms \<Rightarrow> string \<Rightarrow> string option \<Rightarrow> bool \<Rightarrow> rooms \<times> scoring_outcome" where
  "processScoring rooms lid winnerId isExactMatch =
     (case getRoom rooms lid of
        None \<Rightarrow> (rooms, ScoringRoomAbsent)
      | Some room0 \<Rightarrow>
          let room = room0\<lparr>phase := Scoring\<rparr>;
              scoreUpdates = applyScoreChanges (players room) winnerId isExactMatch
                               (activeRules room);
              room1 = room\<lparr>players :=
                        map (\<lambda>player. case scoreUpdates (userId player) of
                                         Some u \<Rightarrow> player\<lparr>score := newScore u\<rparr>
                                       | None \<Rightarrow> player) (players room)\<rparr>;
              newlyEliminated = checkEliminations (players room1);
              room2 = eliminate_loop newlyEliminated room1
          in (AList.update lid room2 rooms,
              if isGameOver (players room2) then ThenEndGame else ThenNextRound))"

text \<open>
  The callback of the countdown that \<^verbatim>\<open>startRoundTimer\<close> installs: one tick.
\<close>

definition timer_tick :: "rooms \<Rightarrow> string \<Rightarrow> rooms \<times> round_outcome option" where
  "timer_tick rooms lid =
     (case getRoom rooms lid of
        None \<Rightarrow> (rooms, None)
      | Some room0 \<Rightarrow>
          let room = room0\<lparr>timeRemaining := timeRemaining room0 - 1\<rparr> in
          if timeRemaining room \<le> 0
          then (case processRound (AList.update lid (room\<lparr>timerInterval := False\<rparr>) rooms) lid of
                  (rooms1, outcome) \<Rightarrow> (rooms1, Some outcome))
          else (AList.update lid room rooms, None))"


section \<open>The life of one room\<close>

text \<open>
  The handlers and timer callbacks of the server run to completion one after the other.
  A state of the system is the registry together with the callbacks that are waiting:
  the calls of \<^verbatim>\<open>startRound\<close> suspended at their \<^verbatim>\<open>await\<close>, and the timeouts set by
  \<^verbatim>\<open>submitChoice\<close> (process the round), \<^verbatim>\<open>processRound\<close> (score, with the winner
  and the exact-match flag), \<^verbatim>\<open>processScoring\<close> (next round, or end of game) and
  \<^verbatim>\<open>endGame\<close> (delete the room). Delays are not modelled: a waiting callback may run
  at any later moment, so the runs of the model include the schedules of the server. One
  lobby is followed, from the creation of its room to its deletion.
\<close>

record sys =
  registry :: rooms
  lobby :: string
  pendingResume :: nat
  pendingRound :: nat
  pendingScoring :: "(string option \<times> bool) list"
  pendingNext :: nat
  pendingEnd :: nat
  pendingDelete :: nat

datatype event =
    Join playerData int
  | Rejoin string string "bool option"
  | Leave string int
  | ToggleReady string bool
  | StartGame "string option" bool int
  | ResumeRound "string option"
  | Submit string real int
  | Tick
  | FireRound
  | FireScoring nat
  | FireNext int
  | FireEnd
  | FireDelete

text \<open>
  What the \<^verbatim>\<open>join_lobby\<close> handler does to a player who is already in the room: the
  connection fields are restored and the ready flag may be synchronised.
\<close>

definition join_lobby_existing ::
  "rooms \<Rightarrow> string \<Rightarrow> string \<Rightarrow> string \<Rightarrow> bool option \<Rightarrow> rooms" where
  "join_lobby_existing rooms lid uid sid ready =
     (case getRoom rooms lid of
        None \<Rightarrow> rooms
      | Some room \<Rightarrow>
          AList.update lid
            (room\<lparr>players :=
               update_first (\<lambda>p. userId p = uid)
                 (\<lambda>p. let p1 = p\<lparr>isConnected := True, socketId := Some sid,
                                  disconnectedAt := None\<rparr>
                      in (case ready of Some b \<Rightarrow> p1\<lparr>isReady := b\<rparr> | None \<Rightarrow> p1))
                 (players room)\<rparr>) rooms)"

text \<open>
  What the \<^verbatim>\<open>toggle_ready\<close> handler does once its checks have passed (the room is in
  the waiting phase and the player is in it).
\<close>

definition toggle_ready :: "rooms \<Rightarrow> string \<Rightarrow> string \<Rightarrow> bool \<Rightarrow> rooms option" where
  "toggle_ready rooms lid uid b =
     (case getRoom rooms lid of
        None \<Rightarrow> None
      | Some room \<Rightarrow>
          if phase room \<noteq> Waiting then None
          else (case find (\<lambda>p. userId p = uid) (players room) of
                  None \<Rightarrow> None
                | Some player \<Rightarrow>
                    Some (AList.update lid
                            (room\<lparr>players :=
                               update_first (\<lambda>p. userId p = uid) (\<lambda>p. p\<lparr>isReady := b\<rparr>)
                                 (players room)\<rparr>) rooms)))"

text \<open>What a call of \<^verbatim>\<open>processRound\<close> leaves waiting.\<close>

definition after_round :: "sys \<Rightarrow> rooms \<times> round_outcome \<Rightarrow> sys" where
  "after_round s res =
     (case res of
        (rooms1, Revealed rv) \<Rightarrow>
          s\<lparr>registry := rooms1,
            pendingScoring := pendingScoring s @ [(rv_winnerId rv, rv_isExactMatch rv)]\<rparr>
      | (rooms1, GameEnded) \<Rightarrow> s\<lparr>registry := rooms1, pendingDelete := pendingDelete s + 1\<rparr>
      | (rooms1, RoomAbsent) \<Rightarrow> s\<lparr>registry := rooms1\<rparr>)"

definition increment_round :: "rooms \<Rightarrow> string \<Rightarrow> rooms" where
  "increment_round rooms lid =
     (case getRoom rooms lid of
        None \<Rightarrow> rooms
      | Some room \<Rightarrow> AList.update lid (room\<lparr>roundNumber := roundNumber room + 1\<rparr>) rooms)"

text \<open>
  One handler or callback. The result is \<open>None\<close> when the room is gone, or when the
  callback is not waiting. The \<^verbatim>\<open>submit_number\<close> handler refuses a missing user
  identifier before it calls \<^verbatim>\<open>submitChoice\<close>. The checks that the
  \<^verbatim>\<open>join_lobby\<close> and \<^verbatim>\<open>start_game\<close> handlers make come before their
  \<^verbatim>\<open>await\<close>s and so speak of an earlier state; the steps \<open>Join\<close> and
  \<open>StartGame\<close> are not restricted by them.
\<close>

definition step :: "sys \<Rightarrow> event \<Rightarrow> sys option" where
  "step s e =
     (let lid = lobby s; rs = registry s in
      if getRoom rs lid = None then None
      else
        (case e of
           Join pd now \<Rightarrow> Some (s\<lparr>registry := fst (addPlayerToRoom rs lid pd now)\<rparr>)
         | Rejoin uid sid ready \<Rightarrow>
             Some (s\<lparr>registry := join_lobby_existing rs lid uid sid ready\<rparr>)
         | Leave sid now \<Rightarrow> Some (s\<lparr>registry := fst (removePlayerFromRoom rs lid sid now)\<rparr>)
         | ToggleReady uid b \<Rightarrow>
             (case toggle_ready rs lid uid b of
                None \<Rightarrow> None
              | Some rs1 \<Rightarrow> Some (s\<lparr>registry := rs1\<rparr>))
         | StartGame gameData playersError now \<Rightarrow>
             (case startGame rs lid gameData playersError now of
                (rs1, Inr gid) \<Rightarrow>
                  Some (s\<lparr>registry := rs1, pendingResume := pendingResume s + 1\<rparr>)
              | (rs1, Inl err) \<Rightarrow> Some (s\<lparr>registry := rs1\<rparr>))
         | ResumeRound roundData \<Rightarrow>
             if pendingResume s = 0 then None
             else Some (s\<lparr>registry := startRound_resume rs lid roundData,
                          pendingResume := pendingResume s - 1\<rparr>)
         | Submit uid choice now \<Rightarrow>
             if uid = [] then None
             else
               (case submitChoice rs lid uid choice now of
                  (rs1, out) \<Rightarrow>
                    Some (s\<lparr>registry := rs1,
                            pendingRound := pendingRound s + (if scheduled out then 1 else 0)\<rparr>))
         | Tick \<Rightarrow>
             (case getRoom rs lid of
                None \<Rightarrow> None
              | Some room \<Rightarrow>
                  if \<not> timerInterval room then None
                  else (case timer_tick rs lid of
                          (rs1, None) \<Rightarrow> Some (s\<lparr>registry := rs1\<rparr>)
                        | (rs1, Some outcome) \<Rightarrow> Some (after_round s (rs1, outcome))))
         | FireRound \<Rightarrow>
             if pendingRound s = 0 then None
             else Some (after_round (s\<lparr>pendingRound := pendingRound s - 1\<rparr>)
                          (processRound rs lid))
         | FireScoring i \<Rightarrow>
             if i \<ge> length (pendingScoring s) then None
             else
               (case pendingScoring s ! i of
                  (winnerId, isExactMatch) \<Rightarrow>
                    (case processScoring rs lid winnerId isExactMatch of
                       (rs1, outcome) \<Rightarrow>
                         let s1 = s\<lparr>registry := rs1,
                                    pendingScoring :=
                                      take i (pendingScoring s) @ drop (Suc i) (pendingScoring s)\<rparr>
                         in Some (if outcome = ThenEndGame
                                  then s1\<lparr>pendingEnd := pendingEnd s + 1\<rparr>
                                  else s1\<lparr>pendingNext := pendingNext s + 1\<rparr>)))
         | FireNext now \<Rightarrow>
             if pendingNext s = 0 then None
             else Some (s\<lparr>registry := startRound (increment_round rs lid) lid now,
                          pendingNext := pendingNext s - 1,
                          pendingResume := pendingResume s + 1\<rparr>)
         | FireEnd \<Rightarrow>
             if pendingEnd s = 0 then None
             else Some (s\<lparr>registry := endGame rs lid,
                          pendingEnd := pendingEnd s - 1,
                          pendingDelete := pendingDelete s + 1\<rparr>)
         | FireDelete \<Rightarrow>
             if pendingDelete s = 0 then None
             else Some (s\<lparr>registry := deleteRoom rs lid,
                          pendingDelete := pendingDelete s - 1\<rparr>)))"

definition initial :: "rooms \<Rightarrow> string \<Rightarrow> lobbyData \<Rightarrow> int \<Rightarrow> sys" where
  "initial rs lid ld now =
     \<lparr> registry = fst (createRoom rs lid ld now), lobby = lid,
       pendingResume = 0, pendingRound = 0, pendingScoring = [],
       pendingNext = 0, pendingEnd = 0, pendingDelete = 0 \<rparr>"

inductive reachable :: "sys \<Rightarrow> bool" where
  reachable_initial: "reachable (initial rs lid ld now)"
| reachable_step: "reachable s \<Longrightarrow> step s e = Some s' \<Longrightarrow> reachable s'"

text \<open>A run: the events one after the other, \<open>None\<close> as soon as one cannot happen.\<close>

fun run :: "event list \<Rightarrow> sys \<Rightarrow> sys option" where
  "run [] s = Some s"
| "run (e # es) s = (case step s e of None \<Rightarrow> None | Some s' \<Rightarrow> run es s')"


section \<open>Example runs\<close>

definition guest :: "string \<Rightarrow> string \<Rightarrow> playerData" where
  "guest uid sid =
     \<lparr>userId = uid, username = uid, pd_socketId = sid, pd_avatar = None,
      pd_isGuest = Some True\<rparr>"

definition example_initial :: sys where
  "example_initial = initial [] ''L'' \<lparr>round_timer = Some 60\<rparr> 0"

text \<open>
  Three guests join and get ready, the game starts at time 10000, and two of them lose
  their connection during the first round.
\<close>

definition game_opening :: "event list" where
  "game_opening =
     [Join (guest ''a'' ''sa'') 1000, Join (guest ''b'' ''sb'') 2000,
      Join (guest ''c'' ''sc'') 3000,
      ToggleReady ''a'' True, ToggleReady ''b'' True, ToggleReady ''c'' True,
      StartGame (Some ''g'') False 10000, ResumeRound None,
      Leave ''sb'' 11000, Leave ''sc'' 12000]"

text \<open>
  A round started at time \<open>t\<close> in which only the connected player submits, five seconds
  into the round: the round is processed one second later and scored after five more, and
  the next round starts five seconds after the scoring.
\<close>

definition solo_round :: "int \<Rightarrow> event list" where
  "solo_round t =
     [Submit ''a'' 50 (t + 5000), FireRound, FireScoring 0, FireNext (t + 16000),
      ResumeRound None]"

definition round_start :: "nat \<Rightarrow> int" where
  "round_start k = 10000 + 16000 * int k"



text \<open>
  Eight such rounds, then a ninth, started at time 138000. The connected player submits at
  143000, which sets a timeout for 144000; a second player comes back and submits at
  143500, which sets a second timeout, for 144500. The round is processed twice, and scored
  at 149000 and at 149500: the first scoring sets the timeout of the next round for 154000,
  the second that of the end of the game for 152500. The game ends, the player who came
  back leaves at 153000, and the timeout of the next round runs at 154000.
\<close>

definition double_round :: "event list" where
  "double_round =
     game_opening @ concat (map (\<lambda>k. solo_round (round_start k)) [0..<8]) @
     [Submit ''a'' 0 143000, Rejoin ''c'' ''sc2'' None, Submit ''c'' 100 143500,
      FireRound, FireRound, FireScoring 0, FireScoring 0, FireEnd,
      Leave ''sc2'' 153000, FireNext 154000]"

definition double_round_state :: sys where
  "double_round_state =
     (case run double_round example_initial of Some s \<Rightarrow> s | None \<Rightarrow> example_initial)"


definition seat ::
  "string \<Rightarrow> string option \<Rightarrow> int \<Rightarrow> bool \<Rightarrow> real option \<Rightarrow> player" where
  "seat uid sid sc elim cur =
     \<lparr>userId = uid, username = uid, socketId = sid, avatar = None, score = sc,
      isEliminated = elim, hasSubmitted = (cur \<noteq> None), currentChoice = cur, isReady = True,
      isGuest = True, isConnected = (sid \<noteq> None), disconnectedAt = None\<rparr>"

definition example_room :: "phase \<Rightarrow> nat list \<Rightarrow> nat \<Rightarrow> player list \<Rightarrow> room" where
  "example_room ph rules n ps =
     \<lparr>lobbyId = ''L'', gameId = None, players = ps, roundNumber = 1, phase = ph,
      activeRules = rules, eliminationCount = n, roundTimer = 60, timerInterval = False,
      timeRemaining = 60, roundStartTime = None, currentRoundId = None, createdAt = 0,
      lastActivity = 0\<rparr>"

text \<open>
  A room after three eliminations: rule 3 is active, and of the four players still in the
  game one has chosen 0, one 50 and two 100.
\<close>

definition rule3_room :: room where
  "rule3_room =
     example_room Submission [1, 2, 3] 3
       [seat ''a'' (Some ''sa'') 2 False (Some 0), seat ''b'' (Some ''sb'') (- 3) False (Some 50),
        seat ''c'' (Some ''sc'') (- 1) False (Some 100), seat ''d'' (Some ''sd'') 0 False (Some 100),
        seat ''e'' None (- 10) True None, seat ''f'' None (- 10) True None,
        seat ''g'' None (- 10) True None]"

section \<open>Properties of a room\<close>

text \<open>
  The active rules lag behind the elimination count: they are the rules of a count that
  the room had at some earlier moment.
\<close>

definition rules_lag :: "room \<Rightarrow> bool" where
  "rules_lag room \<longleftrightarrow> (\<exists>n\<le>eliminationCount room. activeRules room = getActiveRules n)"

text \<open>The active rules are those of the present elimination count.\<close>

definition rules_fresh :: "room \<Rightarrow> bool" where
  "rules_fresh room \<longleftrightarrow> activeRules room = getActiveRules (eliminationCount room)"

text \<open>
  The user identifiers of the players of a room are pairwise distinct, and a player who has
  submitted has a non-empty identifier and a stored number.
\<close>

definition room_wf :: "room \<Rightarrow> bool" where
  "room_wf room \<longleftrightarrow>
     distinct (map userId (players room)) \<and>
     (\<forall>p\<in>set (players room). hasSubmitted p \<longrightarrow> userId p \<noteq> [] \<and> currentChoice p \<noteq> None)"

text \<open>The elimination count is the number of players marked as eliminated.\<close>

definition eliminated :: "player list \<Rightarrow> nat" where
  "eliminated ps = length (filter isEliminated ps)"

definition count_ok :: "room \<Rightarrow> bool" where
  "count_ok room \<longleftrightarrow> eliminationCount room = eliminated (players room)"

definition active :: "room \<Rightarrow> bool" where
  "active room \<longleftrightarrow> phase room \<noteq> Waiting \<and> phase room \<noteq> Finished"

definition room_holds :: "(room \<Rightarrow> bool) \<Rightarrow> rooms \<Rightarrow> string \<Rightarrow> bool" where
  "room_holds P rs lid = (case getRoom rs lid of None \<Rightarrow> True | Some room \<Rightarrow> P room)"

section \<open>The winning number\<close>

lemma foldl_add_number:
  "foldl (\<lambda>acc choice. acc + number choice) a cs = a + sum_list (map number cs)"
  by (induction cs arbitrary: a) simp_all



section \<open>The winner of a round\<close>





section \<open>Score changes\<close>

lemma applyScoreChanges_loop_other:
  "uid \<notin> userId ` set ps \<Longrightarrow> applyScoreChanges_loop ps w pen upd uid = upd uid"
  by (induction ps arbitrary: upd) auto

lemma applyScoreChanges_loop_entry:
  "distinct (map userId ps) \<Longrightarrow> p \<in> set ps \<Longrightarrow>
   applyScoreChanges_loop ps w pen upd (userId p) =
     Some (if isEliminated p then \<lparr>scoreChange = 0, newScore = score p\<rparr>
           else if Some (userId p) = w then \<lparr>scoreChange = 1, newScore = score p + 1\<rparr>
           else \<lparr>scoreChange = pen, newScore = score p + pen\<rparr>)"
proof (induction ps arbitrary: upd)
  case Nil
  then show ?case by simp
next
  case (Cons a ps)
  show ?case
  proof (cases "p = a")
    case True
    from Cons.prems have "userId a \<notin> userId ` set ps" by auto
    then show ?thesis using True by (simp add: applyScoreChanges_loop_other)
  next
    case False
    with Cons.prems have "p \<in> set ps" "distinct (map userId ps)" by auto
    from Cons.IH [OF this(2,1)] show ?thesis by simp
  qed
qed

text \<open>
  C2. For every player list, winner identifier, exact-match flag and set of active rules,
  the user identifiers of the list being pairwise distinct as they are in every room (see
  \<open>reachable_wf\<close> below), the entry that
  \<^verbatim>\<open>applyScoreChanges\<close> makes for a player is: change 0 and the score unchanged for an
  eliminated player; +1 for the winner; for every other player who is not eliminated -1,
  except -2 when rule 2 is active and the round had an exact match.
\<close>

theorem applyScoreChanges_deltas:
  assumes "distinct (map userId ps)" and "p \<in> set ps"
  shows "applyScoreChanges ps winnerId isExactMatch rules (userId p) =
           Some (if isEliminated p then \<lparr>scoreChange = 0, newScore = score p\<rparr>
                 else if Some (userId p) = winnerId
                 then \<lparr>scoreChange = 1, newScore = score p + 1\<rparr>
                 else if isExactMatch \<and> 2 \<in> set rules
                 then \<lparr>scoreChange = - 2, newScore = score p - 2\<rparr>
                 else \<lparr>scoreChange = - 1, newScore = score p - 1\<rparr>)"
  using applyScoreChanges_loop_entry [OF assms]
  by (simp add: applyScoreChanges_def)

theorem applyScoreChanges_deltas_witness:
  "distinct (map userId (players rule3_room)) \<and>
   seat ''b'' (Some ''sb'') (- 3) False (Some 50) \<in> set (players rule3_room) \<and>
   applyScoreChanges (players rule3_room) (Some ''c'') True [1, 2, 3] ''b'' =
     Some \<lparr>scoreChange = - 2, newScore = - 5\<rparr>"
  using applyScoreChanges_deltas
          [of "players rule3_room" "seat ''b'' (Some ''sb'') (- 3) False (Some 50)"
              "Some ''c''" True "[1, 2, 3]"]
  by (simp add: rule3_room_def example_room_def seat_def)

section \<open>Validation of a choice\<close>



section \<open>Lookups in the registry\<close>

lemma getRoom_update [simp]:
  "getRoom (AList.update k v rs) k' = (if k' = k then Some v else getRoom rs k')"
  by (simp add: getRoom_def update_conv')

lemma getRoom_delete [simp]:
  "getRoom (AList.delete k rs) k' = (if k' = k then None else getRoom rs k')"
  by (simp add: getRoom_def delete_conv')

lemma getRoom_endGame:
  "getRoom (endGame rs lid) lid = map_option (\<lambda>room. room\<lparr>phase := Finished\<rparr>) (getRoom rs lid)"
  by (simp add: endGame_def split: option.splits)

lemma lobby_after_round [simp]: "lobby (after_round s res) = lobby s"
  by (cases res) (auto simp: after_round_def split: round_outcome.splits)

lemma registry_after_round [simp]: "registry (after_round s res) = fst res"
  by (cases res) (auto simp: after_round_def split: round_outcome.splits)

text \<open>
  The first element that satisfies a predicate splits the list; the update and the removal
  of the first match act at that place.
\<close>

lemma find_first_split:
  "find P xs = Some x \<Longrightarrow>
   \<exists>pre post. xs = pre @ x # post \<and> P x \<and> (\<forall>y\<in>set pre. \<not> P y) \<and>
     update_first P f xs = pre @ f x # post \<and> remove_first P xs = pre @ post"
proof (induction xs)
  case Nil
  then show ?case by simp
next
  case (Cons a xs)
  show ?case
  proof (cases "P a")
    case True
    with Cons.prems have "x = a" by simp
    then have "a # xs = [] @ x # xs" by simp
    moreover have "update_first P f (a # xs) = [] @ f x # xs" using True \<open>x = a\<close> by simp
    moreover have "remove_first P (a # xs) = [] @ xs" using True by simp
    ultimately show ?thesis using True \<open>x = a\<close> by (metis empty_iff list.set(1))
  next
    case False
    with Cons.prems have "find P xs = Some x" by simp
    from Cons.IH [OF this] obtain pre post where
      h: "xs = pre @ x # post" "P x" "\<forall>y\<in>set pre. \<not> P y"
         "update_first P f xs = pre @ f x # post" "remove_first P xs = pre @ post" by blast
    have "a # xs = (a # pre) @ x # post" using h(1) by simp
    moreover have "\<forall>y\<in>set (a # pre). \<not> P y" using h(3) False by simp
    moreover have "update_first P f (a # xs) = (a # pre) @ f x # post" using h(4) False by simp
    moreover have "remove_first P (a # xs) = (a # pre) @ post" using h(5) False by simp
    ultimately show ?thesis using h(2) by blast
  qed
qed

section \<open>Well-formed rooms\<close>

text \<open>
  In every reachable state the user identifiers of the players of the room are pairwise
  distinct (\<^verbatim>\<open>addPlayerToRoom\<close> looks the identifier up before it adds a player), and a
  player who has submitted has a non-empty identifier and a stored number.
\<close>

lemma map_userId_update_first [simp]:
  "\<forall>x. userId (f x) = userId x \<Longrightarrow> map userId (update_first P f xs) = map userId xs"
  by (induction xs) auto

lemma set_update_first:
  "y \<in> set (update_first P f xs) \<Longrightarrow> y \<in> set xs \<or> (\<exists>x\<in>set xs. P x \<and> y = f x)"
  by (induction xs) (auto split: if_splits)

lemma set_remove_first: "y \<in> set (remove_first P xs) \<Longrightarrow> y \<in> set xs"
  by (induction xs) (auto split: if_splits)

lemma distinct_remove_first:
  "distinct (map g xs) \<Longrightarrow> distinct (map g (remove_first P xs))"
  by (induction xs) (auto dest: set_remove_first)

lemma wf_createRoom: "room_holds room_wf (fst (createRoom rs lid ld now)) lid"
  by (simp add: createRoom_def room_holds_def room_wf_def Let_def)

lemma wf_addPlayerToRoom:
  "room_holds room_wf rs lid \<Longrightarrow> room_holds room_wf (fst (addPlayerToRoom rs lid pd now)) lid"
  by (auto simp: addPlayerToRoom_def room_holds_def Let_def room_wf_def find_None_iff
        split: option.splits dest!: set_update_first)

lemma wf_join_lobby_existing:
  "room_holds room_wf rs lid \<Longrightarrow> room_holds room_wf (join_lobby_existing rs lid uid sid b) lid"
  by (auto simp: join_lobby_existing_def room_holds_def room_wf_def Let_def
        split: option.splits dest!: set_update_first)

lemma wf_removePlayerFromRoom:
  "room_holds room_wf rs lid \<Longrightarrow>
   room_holds room_wf (fst (removePlayerFromRoom rs lid sid now)) lid"
  by (auto simp: removePlayerFromRoom_def deleteRoom_def room_holds_def Let_def room_wf_def
        distinct_remove_first
        split: option.splits dest!: set_update_first set_remove_first)

lemma wf_toggle_ready:
  "room_holds room_wf rs lid \<Longrightarrow> toggle_ready rs lid uid b = Some rs1 \<Longrightarrow>
   room_holds room_wf rs1 lid"
  by (auto simp: toggle_ready_def room_holds_def room_wf_def
        split: option.splits if_splits dest!: set_update_first)

lemma wf_startRound:
  "room_holds room_wf rs lid \<Longrightarrow> room_holds room_wf (startRound rs lid now) lid"
  by (auto simp: startRound_def room_holds_def room_wf_def comp_def if_distrib
        split: option.splits if_splits cong: if_cong)


lemma wf_startGame:
  "room_holds room_wf rs lid \<Longrightarrow>
   room_holds room_wf (fst (startGame rs lid gameData playersError now)) lid"
proof (cases "getRoom rs lid")
  case None
  then show ?thesis by (simp add: startGame_def room_holds_def)
next
  case (Some room)
  assume "room_holds room_wf rs lid"
  with Some have "room_holds room_wf (AList.update lid (room\<lparr>gameId := g\<rparr>) rs) lid" for g
    by (simp add: room_holds_def room_wf_def)
  from wf_startRound [OF this] this Some \<open>room_holds room_wf rs lid\<close> show ?thesis
    by (cases gameData) (simp_all add: startGame_def Let_def)
qed

lemma wf_startRound_resume:
  "room_holds room_wf rs lid \<Longrightarrow> room_holds room_wf (startRound_resume rs lid rd) lid"
  by (auto simp: startRound_resume_def startRoundTimer_def room_holds_def room_wf_def
        split: option.splits)

lemma wf_submitChoice:
  "room_holds room_wf rs lid \<Longrightarrow> uid \<noteq> [] \<Longrightarrow>
   room_holds room_wf (fst (submitChoice rs lid uid choice now)) lid"
  by (auto simp: submitChoice_def room_holds_def Let_def room_wf_def
        split: option.splits validation.splits dest!: set_update_first)

lemma wf_endGame: "room_holds room_wf rs lid \<Longrightarrow> room_holds room_wf (endGame rs lid) lid"
  by (auto simp: endGame_def room_holds_def room_wf_def split: option.splits)

lemma wf_processRound:
  "room_holds room_wf rs lid \<Longrightarrow> room_holds room_wf (fst (processRound rs lid)) lid"
  by (auto simp: processRound_def endGame_def room_holds_def Let_def split_beta room_wf_def
        split: option.splits)

lemma wf_timer_tick:
  "room_holds room_wf rs lid \<Longrightarrow> room_holds room_wf (fst (timer_tick rs lid)) lid"
proof (cases "getRoom rs lid")
  case None
  then show ?thesis by (simp add: timer_tick_def room_holds_def)
next
  case (Some room0)
  assume h: "room_holds room_wf rs lid"
  let ?room = "room0\<lparr>timeRemaining := timeRemaining room0 - 1\<rparr>"
  have 1: "room_holds room_wf (AList.update lid (?room\<lparr>timerInterval := False\<rparr>) rs) lid"
    using h Some by (simp add: room_holds_def room_wf_def)
  have 2: "room_holds room_wf (AList.update lid ?room rs) lid"
    using h Some by (simp add: room_holds_def room_wf_def)
  show ?thesis
    using Some wf_processRound [OF 1] 2
    by (simp add: timer_tick_def Let_def split_beta)
qed

lemma eliminate_loop_wf: "room_wf r \<Longrightarrow> room_wf (eliminate_loop uids r)"
proof (induction uids arbitrary: r)
  case Nil
  then show ?case by simp
next
  case (Cons uid uids)
  show ?case
  proof (cases "find (\<lambda>p. userId p = uid) (players r)")
    case None
    then show ?thesis using Cons by simp
  next
    case (Some player)
    have "room_wf (r\<lparr>players := update_first (\<lambda>p. userId p = uid) (\<lambda>p. p\<lparr>isEliminated := True\<rparr>)
                              (players r),
                 eliminationCount := eliminationCount r + 1\<rparr>)"
      using Cons.prems by (auto simp: room_wf_def dest!: set_update_first)
    from Cons.IH [OF this] Some show ?thesis by simp
  qed
qed

lemma wf_processScoring:
  "room_holds room_wf rs lid \<Longrightarrow>
   room_holds room_wf (fst (processScoring rs lid winnerId isExactMatch)) lid"
proof (cases "getRoom rs lid")
  case None
  then show ?thesis by (simp add: processScoring_def room_holds_def)
next
  case (Some room0)
  assume "room_holds room_wf rs lid"
  with Some have wf: "room_wf room0" by (simp add: room_holds_def)
  define g :: "player \<Rightarrow> player" where
    "g = (\<lambda>player. case applyScoreChanges (players room0) winnerId isExactMatch
                               (activeRules room0) (userId player) of
                          Some u \<Rightarrow> player\<lparr>score := newScore u\<rparr>
                        | None \<Rightarrow> player)"
  define room1 where "room1 = room0\<lparr>phase := Scoring, players := map g (players room0)\<rparr>"
  have g: "userId (g x) = userId x" "hasSubmitted (g x) = hasSubmitted x"
    "currentChoice (g x) = currentChoice x" for x
    by (simp_all add: g_def split: option.splits)
  have "room_wf room1"
    using wf by (auto simp: room1_def room_wf_def comp_def g)
  then have "room_wf (eliminate_loop (checkEliminations (players room1)) room1)"
    by (rule eliminate_loop_wf)
  then show ?thesis
    using Some by (simp add: processScoring_def room_holds_def Let_def room1_def g_def)
qed

lemma wf_increment_round:
  "room_holds room_wf rs lid \<Longrightarrow> room_holds room_wf (increment_round rs lid) lid"
  by (auto simp: increment_round_def room_holds_def room_wf_def split: option.splits)


lemma step_wf:
  assumes "step s e = Some s'" and "room_holds room_wf (registry s) (lobby s)"
  shows "room_holds room_wf (registry s') (lobby s')"
proof (cases e)
  case (Join pd now)
  with assms show ?thesis
    by (auto simp: step_def Let_def wf_addPlayerToRoom split: if_splits)
next
  case (Rejoin uid sid ready)
  with assms show ?thesis
    by (auto simp: step_def Let_def wf_join_lobby_existing split: if_splits)
next
  case (Leave sid now)
  with assms show ?thesis
    by (auto simp: step_def Let_def wf_removePlayerFromRoom split: if_splits)
next
  case (ToggleReady uid b)
  with assms show ?thesis
    by (auto simp: step_def Let_def wf_toggle_ready split: if_splits option.splits)
next
  case (StartGame gameData playersError now)
  with assms wf_startGame [of "registry s" "lobby s" gameData playersError now] show ?thesis
    by (auto simp: step_def Let_def split: if_splits prod.splits sum.splits)
next
  case (ResumeRound rd)
  with assms show ?thesis
    by (auto simp: step_def Let_def wf_startRound_resume split: if_splits)
next
  case (Submit uid choice now)
  with assms wf_submitChoice [of "registry s" "lobby s" uid choice now] show ?thesis
    by (auto simp: step_def Let_def split: if_splits prod.splits)
next
  case Tick
  with assms wf_timer_tick [of "registry s" "lobby s"] show ?thesis
    by (auto simp: step_def Let_def split: if_splits prod.splits option.splits)
next
  case FireRound
  with assms wf_processRound [of "registry s" "lobby s"] show ?thesis
    by (auto simp: step_def Let_def split: if_splits)
next
  case (FireScoring i)
  obtain w x where wx: "pendingScoring s ! i = (w, x)" by (cases "pendingScoring s ! i")
  with FireScoring assms wf_processScoring [of "registry s" "lobby s" w x] show ?thesis
    by (auto simp: step_def Let_def split: if_splits prod.splits)
next
  case (FireNext now)
  with assms show ?thesis
    by (auto simp: step_def Let_def wf_startRound wf_increment_round split: if_splits)
next
  case FireEnd
  with assms show ?thesis
    by (auto simp: step_def Let_def wf_endGame split: if_splits)
next
  case FireDelete
  with assms show ?thesis
    by (auto simp: step_def Let_def deleteRoom_def room_holds_def split: if_splits)
qed

lemma reachable_wf: "reachable s \<Longrightarrow> room_holds room_wf (registry s) (lobby s)"
proof (induction rule: reachable.induct)
  case (reachable_initial rs lid ld now)
  then show ?case by (simp add: initial_def wf_createRoom)
next
  case (reachable_step s e s')
  then show ?case using step_wf by blast
qed

section \<open>Processing a round\<close>

lemma gatherChoices_connected:
  "gatherChoices ps \<noteq> [] \<Longrightarrow> filter (\<lambda>p. \<not> isEliminated p \<and> isConnected p) ps \<noteq> []"
  by (auto simp: gatherChoices_def filter_empty_conv)

text \<open>
  A player whose choice is gathered is connected and not eliminated, so the second test of
  \<^verbatim>\<open>processRound\<close> never ends a game that the first one let pass.
\<close>

lemma processRound_cases:
  assumes "getRoom rs lid = Some room"
  shows "processRound rs lid =
     (let cs = gatherChoices (players room); rs1 = AList.update lid (room\<lparr>phase := Reveal\<rparr>) rs in
      if cs = [] then (endGame rs1 lid, GameEnded)
      else (rs1, Revealed \<lparr>rv_choices = cs,
              rv_average = fst (calculateWinningNumber cs),
              rv_winningNumber = snd (calculateWinningNumber cs),
              rv_winnerId =
                (if js_not (if 3 \<in> set (activeRules room) then checkSpecialWin cs else None)
                 then findWinner (players room) cs (snd (calculateWinningNumber cs))
                 else (if 3 \<in> set (activeRules room) then checkSpecialWin cs else None)),
              rv_isExactMatch = checkExactMatch cs (snd (calculateWinningNumber cs))\<rparr>))"
  using assms gatherChoices_connected [of "players room"]
  by (simp add: processRound_def Let_def split_beta)

lemma calculateWinningNumber_average:
  "cs \<noteq> [] \<Longrightarrow>
   fst (calculateWinningNumber cs) = Num (sum_list (map number cs) / real (length cs))"
  by (simp add: calculateWinningNumber_def foldl_add_number js_div_def Let_def)

text \<open>
  C10. \<^verbatim>\<open>processRound\<close> ends the game, without computing an average, whenever no
  choice of a submitted, connected, non-eliminated player was gathered; whenever it does
  reveal a round, the gathered list is non-empty, so the average it computed is the sum
  divided by a count that is not zero.
\<close>

theorem processRound_average_defined:
  assumes "getRoom rs lid = Some room"
  shows "(gatherChoices (players room) = [] \<longrightarrow>
            snd (processRound rs lid) = GameEnded \<and>
            getRoom (fst (processRound rs lid)) lid = Some (room\<lparr>phase := Finished\<rparr>)) \<and>
         (\<forall>rv. snd (processRound rs lid) = Revealed rv \<longrightarrow>
            rv_choices rv = gatherChoices (players room) \<and>
            0 < length (rv_choices rv) \<and>
            (rv_average rv, rv_winningNumber rv) = calculateWinningNumber (rv_choices rv) \<and>
            rv_average rv =
              Num (sum_list (map number (rv_choices rv)) / real (length (rv_choices rv))))"
proof (cases "gatherChoices (players room) = []")
  case True
  then show ?thesis
    by (simp add: processRound_cases [OF assms] getRoom_endGame)
next
  case False
  let ?cs = "gatherChoices (players room)"
  have "\<forall>rv. snd (processRound rs lid) = Revealed rv \<longrightarrow>
          rv_choices rv = ?cs \<and>
          (rv_average rv, rv_winningNumber rv) = calculateWinningNumber ?cs \<and>
          rv_average rv = fst (calculateWinningNumber ?cs)"
    using False by (auto simp: processRound_cases [OF assms] Let_def)
  moreover have "0 < length ?cs" using False by simp
  moreover note calculateWinningNumber_average [OF False]
  ultimately have "\<forall>rv. snd (processRound rs lid) = Revealed rv \<longrightarrow>
            rv_choices rv = gatherChoices (players room) \<and>
            0 < length (rv_choices rv) \<and>
            (rv_average rv, rv_winningNumber rv) = calculateWinningNumber (rv_choices rv) \<and>
            rv_average rv =
              Num (sum_list (map number (rv_choices rv)) / real (length (rv_choices rv)))"
    by metis
  with False show ?thesis by blast
qed

theorem processRound_average_defined_witness:
  "getRoom [(''L'', rule3_room)] ''L'' = Some rule3_room \<and>
   (\<exists>rv. snd (processRound [(''L'', rule3_room)] ''L'') = Revealed rv \<and>
         length (rv_choices rv) = 4 \<and> rv_average rv = Num (125 / 2)) \<and>
   getRoom [(''L'', example_room Submission [] 0 [seat ''a'' None 0 False (Some 5)])] ''L'' =
     Some (example_room Submission [] 0 [seat ''a'' None 0 False (Some 5)]) \<and>
   snd (processRound [(''L'', example_room Submission [] 0 [seat ''a'' None 0 False (Some 5)])]
          ''L'') = GameEnded"
  using processRound_average_defined [of "[(''L'', rule3_room)]" "''L''" rule3_room]
        processRound_average_defined
          [of "[(''L'', example_room Submission [] 0 [seat ''a'' None 0 False (Some 5)])]" "''L''"
              "example_room Submission [] 0 [seat ''a'' None 0 False (Some 5)]"]
  by (simp add: getRoom_def processRound_cases gatherChoices_def rule3_room_def
        example_room_def seat_def currentNumber_def Let_def)

section \<open>The special win\<close>




section \<open>Leaving a room\<close>

text \<open>
  C8. When the only player of a room in the waiting phase leaves, the room is deleted from
  the registry. When a player leaves a room whose phase is neither waiting nor finished,
  the player stays at the same place in the list, marked as disconnected, with the time of
  the disconnection recorded and the connection reference cleared, and the room stays in
  the registry, otherwise unchanged.
\<close>

theorem removePlayerFromRoom_leave:
  assumes room: "getRoom rs lid = Some room"
    and player: "find (\<lambda>p. socketId p = Some sid) (players room) = Some player"
  shows "(phase room = Waiting \<longrightarrow> players room = [player] \<longrightarrow>
            snd (removePlayerFromRoom rs lid sid now) = Some player \<and>
            getRoom (fst (removePlayerFromRoom rs lid sid now)) lid = None) \<and>
         (phase room \<noteq> Waiting \<longrightarrow> phase room \<noteq> Finished \<longrightarrow>
            (\<exists>pre post marked.
               marked = player\<lparr>isConnected := False, disconnectedAt := Some now,
                               socketId := None\<rparr> \<and>
               players room = pre @ player # post \<and>
               (\<forall>q\<in>set pre. socketId q \<noteq> Some sid) \<and>
               snd (removePlayerFromRoom rs lid sid now) = Some marked \<and>
               getRoom (fst (removePlayerFromRoom rs lid sid now)) lid =
                 Some (room\<lparr>players := pre @ marked # post\<rparr>)))"
proof (rule conjI; intro impI)
  assume "phase room = Waiting" "players room = [player]"
  then show "snd (removePlayerFromRoom rs lid sid now) = Some player \<and>
            getRoom (fst (removePlayerFromRoom rs lid sid now)) lid = None"
    using room player
    by (simp add: removePlayerFromRoom_def deleteRoom_def Let_def split: if_splits)
next
  assume active: "phase room \<noteq> Waiting" "phase room \<noteq> Finished"
  let ?mark = "\<lambda>p. p\<lparr>isConnected := False, disconnectedAt := Some now, socketId := None\<rparr>"
  from find_first_split [OF player, of ?mark] obtain pre post where
    h: "players room = pre @ player # post" "\<forall>y\<in>set pre. socketId y \<noteq> Some sid"
       "update_first (\<lambda>p. socketId p = Some sid) ?mark (players room) = pre @ ?mark player # post"
    by blast
  have "snd (removePlayerFromRoom rs lid sid now) = Some (?mark player)"
    using room player active by (simp add: removePlayerFromRoom_def Let_def)
  moreover have "getRoom (fst (removePlayerFromRoom rs lid sid now)) lid =
                 Some (room\<lparr>players := pre @ ?mark player # post\<rparr>)"
    using room player active h(3) by (simp add: removePlayerFromRoom_def Let_def)
  ultimately show "\<exists>pre post marked.
               marked = player\<lparr>isConnected := False, disconnectedAt := Some now,
                               socketId := None\<rparr> \<and>
               players room = pre @ player # post \<and>
               (\<forall>q\<in>set pre. socketId q \<noteq> Some sid) \<and>
               snd (removePlayerFromRoom rs lid sid now) = Some marked \<and>
               getRoom (fst (removePlayerFromRoom rs lid sid now)) lid =
                 Some (room\<lparr>players := pre @ marked # post\<rparr>)"
    using h(1,2) by blast
qed

theorem removePlayerFromRoom_leave_witness:
  "getRoom [(''L'', example_room Waiting [] 0 [seat ''a'' (Some ''sa'') 0 False None])] ''L'' =
     Some (example_room Waiting [] 0 [seat ''a'' (Some ''sa'') 0 False None]) \<and>
   getRoom (fst (removePlayerFromRoom
        [(''L'', example_room Waiting [] 0 [seat ''a'' (Some ''sa'') 0 False None])]
        ''L'' ''sa'' 9)) ''L'' = None \<and>
   getRoom [(''L'', rule3_room)] ''L'' = Some rule3_room \<and>
   map_option (\<lambda>r. map (\<lambda>p. (userId p, isConnected p, disconnectedAt p, socketId p))
                       (take 3 (players r)))
     (getRoom (fst (removePlayerFromRoom [(''L'', rule3_room)] ''L'' ''sb'' 9)) ''L'') =
     Some [(''a'', True, None, Some ''sa''), (''b'', False, Some 9, None),
           (''c'', True, None, Some ''sc'')]"
  using removePlayerFromRoom_leave
          [of "[(''L'', example_room Waiting [] 0 [seat ''a'' (Some ''sa'') 0 False None])]" "''L''"
              "example_room Waiting [] 0 [seat ''a'' (Some ''sa'') 0 False None]" "''sa''"
              "seat ''a'' (Some ''sa'') 0 False None" 9]
        removePlayerFromRoom_leave
          [of "[(''L'', rule3_room)]" "''L''" rule3_room "''sb''"
              "seat ''b'' (Some ''sb'') (- 3) False (Some 50)" 9]
  by (simp add: getRoom_def removePlayerFromRoom_def deleteRoom_def Let_def rule3_room_def
        example_room_def seat_def)

section \<open>A refused submission\<close>




section \<open>The active rules and the elimination count\<close>

text \<open>
  The lag is kept by every operation: only \<^verbatim>\<open>startRound\<close> writes the active rules, from
  the elimination count of that moment, and only the elimination loop of
  \<^verbatim>\<open>processScoring\<close> writes the count, which it raises.
\<close>

lemma rules_lag_update [simp]:
  "rules_lag (r\<lparr>lastActivity := a\<rparr>) = rules_lag r"
  "rules_lag (r\<lparr>players := b\<rparr>) = rules_lag r"
  "rules_lag (r\<lparr>gameId := c\<rparr>) = rules_lag r"
  "rules_lag (r\<lparr>phase := d\<rparr>) = rules_lag r"
  "rules_lag (r\<lparr>timerInterval := e\<rparr>) = rules_lag r"
  "rules_lag (r\<lparr>timeRemaining := f\<rparr>) = rules_lag r"
  "rules_lag (r\<lparr>currentRoundId := g\<rparr>) = rules_lag r"
  "rules_lag (r\<lparr>roundNumber := h\<rparr>) = rules_lag r"
  "rules_lag (r\<lparr>roundStartTime := i\<rparr>) = rules_lag r"
  by (simp_all add: rules_lag_def)

















lemma lag_increment_round:
  "room_holds rules_lag rs lid \<Longrightarrow> room_holds rules_lag (increment_round rs lid) lid"
  by (auto simp: increment_round_def room_holds_def split: option.splits)




text \<open>
  The same for the equality itself: \<^verbatim>\<open>startRound\<close> establishes it and every handler
  and callback other than \<^verbatim>\<open>processScoring\<close> keeps it.
\<close>

lemma rules_fresh_update [simp]:
  "rules_fresh (r\<lparr>lastActivity := a\<rparr>) = rules_fresh r"
  "rules_fresh (r\<lparr>players := b\<rparr>) = rules_fresh r"
  "rules_fresh (r\<lparr>gameId := c\<rparr>) = rules_fresh r"
  "rules_fresh (r\<lparr>phase := d\<rparr>) = rules_fresh r"
  "rules_fresh (r\<lparr>timerInterval := e\<rparr>) = rules_fresh r"
  "rules_fresh (r\<lparr>timeRemaining := f\<rparr>) = rules_fresh r"
  "rules_fresh (r\<lparr>currentRoundId := g\<rparr>) = rules_fresh r"
  "rules_fresh (r\<lparr>roundNumber := h\<rparr>) = rules_fresh r"
  "rules_fresh (r\<lparr>roundStartTime := i\<rparr>) = rules_fresh r"
  by (simp_all add: rules_fresh_def)












lemma fresh_increment_round:
  "room_holds rules_fresh rs lid \<Longrightarrow> room_holds rules_fresh (increment_round rs lid) lid"
  by (auto simp: increment_round_def room_holds_def split: option.splits)


lemma run_reachable: "reachable s \<Longrightarrow> run es s = Some s' \<Longrightarrow> reachable s'"
proof (induction es arbitrary: s)
  case Nil
  then show ?case by simp
next
  case (Cons e es)
  then show ?case
    by (auto split: option.splits intro: reachable_step)
qed

lemma reachable_example_initial: "reachable example_initial"
  by (simp add: example_initial_def reachable_initial)





section \<open>The elimination count and the eliminated players\<close>

text \<open>
  Operation by operation: a new player is not eliminated, a player who leaves an active
  game stays in the list, and the elimination loop marks and counts the same players.
\<close>

lemma eliminated_update_first [simp]:
  "\<forall>x. isEliminated (f x) = isEliminated x \<Longrightarrow>
   eliminated (update_first P f xs) = eliminated xs"
  by (induction xs) (auto simp: eliminated_def)

lemma eliminated_map [simp]:
  "\<forall>x. isEliminated (f x) = isEliminated x \<Longrightarrow> eliminated (map f xs) = eliminated xs"
  by (induction xs) (auto simp: eliminated_def)

lemma eliminated_append [simp]: "eliminated (xs @ ys) = eliminated xs + eliminated ys"
  by (simp add: eliminated_def)

lemma eliminated_Cons [simp]:
  "eliminated (x # xs) = (if isEliminated x then 1 else 0) + eliminated xs"
  by (simp add: eliminated_def)

lemma eliminated_Nil [simp]: "eliminated [] = 0"
  by (simp add: eliminated_def)

lemma eliminated_mark:
  assumes "find P xs = Some x" and "\<not> isEliminated x"
  shows "eliminated (update_first P (\<lambda>p. p\<lparr>isEliminated := True\<rparr>) xs) = eliminated xs + 1"
proof -
  from find_first_split [OF assms(1), of "\<lambda>p. p\<lparr>isEliminated := True\<rparr>"] obtain pre post where
    "xs = pre @ x # post"
    "update_first P (\<lambda>p. p\<lparr>isEliminated := True\<rparr>) xs = pre @ x\<lparr>isEliminated := True\<rparr> # post"
    by blast
  with assms(2) show ?thesis by simp
qed

lemma find_userId_unique:
  assumes "distinct (map userId xs)" and "p \<in> set xs"
  shows "find (\<lambda>q. userId q = userId p) xs = Some p"
  using assms by (induction xs) (auto simp: image_iff)

text \<open>
  When the identifiers to eliminate are distinct and each is the identifier of a player
  who is not eliminated, the loop marks one more player and counts one more for each.
\<close>

lemma eliminate_loop_count:
  assumes "distinct uids" and "distinct (map userId (players r))"
    and "\<forall>uid\<in>set uids. \<exists>p\<in>set (players r). userId p = uid \<and> \<not> isEliminated p"
  shows "eliminationCount (eliminate_loop uids r) = eliminationCount r + length uids \<and>
         eliminated (players (eliminate_loop uids r)) = eliminated (players r) + length uids"
  using assms
proof (induction uids arbitrary: r)
  case Nil
  then show ?case by simp
next
  case (Cons uid uids)
  from Cons.prems(3) obtain p where p: "p \<in> set (players r)" "userId p = uid" "\<not> isEliminated p"
    by auto
  from find_userId_unique [OF Cons.prems(2) p(1)] p(2)
  have found: "find (\<lambda>q. userId q = uid) (players r) = Some p" by simp
  let ?ps = "update_first (\<lambda>q. userId q = uid) (\<lambda>q. q\<lparr>isEliminated := True\<rparr>) (players r)"
  let ?r1 = "r\<lparr>players := ?ps, eliminationCount := eliminationCount r + 1\<rparr>"
  have d: "distinct (map userId (players ?r1))" using Cons.prems(2) by simp
  have rest: "\<forall>u\<in>set uids. \<exists>q\<in>set (players ?r1). userId q = u \<and> \<not> isEliminated q"
  proof
    fix u assume u: "u \<in> set uids"
    with Cons.prems(1) have "u \<noteq> uid" by auto
    from u Cons.prems(3) obtain q where q: "q \<in> set (players r)" "userId q = u" "\<not> isEliminated q"
      by auto
    from find_first_split [OF found, of "\<lambda>q. q\<lparr>isEliminated := True\<rparr>"] obtain pre post where
      sp: "players r = pre @ p # post" "?ps = pre @ p\<lparr>isEliminated := True\<rparr> # post" by blast
    from q(1) sp(1) \<open>u \<noteq> uid\<close> q(2) p(2) have "q \<in> set pre \<or> q \<in> set post" by auto
    with sp(2) have "q \<in> set ?ps" by auto
    with q show "\<exists>q\<in>set (players ?r1). userId q = u \<and> \<not> isEliminated q" by auto
  qed
  from Cons.prems(1) have "distinct uids" by simp
  from Cons.IH [OF this d rest] eliminated_mark [OF found p(3)] found
  show ?case by simp
qed

lemma checkEliminations_targets:
  assumes "distinct (map userId ps)"
  shows "distinct (checkEliminations ps) \<and>
         (\<forall>uid\<in>set (checkEliminations ps). \<exists>p\<in>set ps. userId p = uid \<and> \<not> isEliminated p)"
  using assms by (auto simp: checkEliminations_def distinct_map_filter)


lemma count_createRoom: "room_holds count_ok (fst (createRoom rs lid ld now)) lid"
  by (simp add: createRoom_def room_holds_def count_ok_def Let_def)

lemma count_addPlayerToRoom:
  "room_holds count_ok rs lid \<Longrightarrow> room_holds count_ok (fst (addPlayerToRoom rs lid pd now)) lid"
  by (auto simp: addPlayerToRoom_def room_holds_def Let_def count_ok_def split: option.splits)

lemma count_join_lobby_existing:
  "room_holds count_ok rs lid \<Longrightarrow> room_holds count_ok (join_lobby_existing rs lid uid sid b) lid"
  by (auto simp: join_lobby_existing_def room_holds_def count_ok_def Let_def
        split: option.splits)

text \<open>While the game is active, a player who leaves stays in the list.\<close>

lemma count_removePlayerFromRoom:
  "room_holds count_ok rs lid \<Longrightarrow> room_holds active rs lid \<Longrightarrow>
   room_holds count_ok (fst (removePlayerFromRoom rs lid sid now)) lid"
  by (auto simp: removePlayerFromRoom_def room_holds_def Let_def count_ok_def active_def
        split: option.splits)

lemma count_toggle_ready:
  "room_holds count_ok rs lid \<Longrightarrow> toggle_ready rs lid uid b = Some rs1 \<Longrightarrow>
   room_holds count_ok rs1 lid"
  by (auto simp: toggle_ready_def room_holds_def count_ok_def
        split: option.splits if_splits)

lemma count_startRound:
  "room_holds count_ok rs lid \<Longrightarrow> room_holds count_ok (startRound rs lid now) lid"
  by (auto simp: startRound_def room_holds_def count_ok_def split: option.splits)

lemma count_startGame:
  "room_holds count_ok rs lid \<Longrightarrow>
   room_holds count_ok (fst (startGame rs lid gameData playersError now)) lid"
proof (cases "getRoom rs lid")
  case None
  then show ?thesis by (simp add: startGame_def room_holds_def)
next
  case (Some room)
  assume "room_holds count_ok rs lid"
  with Some have "room_holds count_ok (AList.update lid (room\<lparr>gameId := g\<rparr>) rs) lid" for g
    by (simp add: room_holds_def count_ok_def)
  from count_startRound [OF this] this Some \<open>room_holds count_ok rs lid\<close> show ?thesis
    by (cases gameData) (simp_all add: startGame_def Let_def)
qed

lemma count_startRound_resume:
  "room_holds count_ok rs lid \<Longrightarrow> room_holds count_ok (startRound_resume rs lid rd) lid"
  by (auto simp: startRound_resume_def startRoundTimer_def room_holds_def count_ok_def
        split: option.splits)

lemma count_submitChoice:
  "room_holds count_ok rs lid \<Longrightarrow>
   room_holds count_ok (fst (submitChoice rs lid uid choice now)) lid"
  by (auto simp: submitChoice_def room_holds_def Let_def count_ok_def
        split: option.splits validation.splits)

lemma count_endGame: "room_holds count_ok rs lid \<Longrightarrow> room_holds count_ok (endGame rs lid) lid"
  by (auto simp: endGame_def room_holds_def count_ok_def split: option.splits)

lemma count_processRound:
  "room_holds count_ok rs lid \<Longrightarrow> room_holds count_ok (fst (processRound rs lid)) lid"
  by (auto simp: processRound_def endGame_def room_holds_def Let_def split_beta count_ok_def
        split: option.splits)

lemma count_timer_tick:
  "room_holds count_ok rs lid \<Longrightarrow> room_holds count_ok (fst (timer_tick rs lid)) lid"
proof (cases "getRoom rs lid")
  case None
  then show ?thesis by (simp add: timer_tick_def room_holds_def)
next
  case (Some room0)
  assume h: "room_holds count_ok rs lid"
  let ?room = "room0\<lparr>timeRemaining := timeRemaining room0 - 1\<rparr>"
  have 1: "room_holds count_ok (AList.update lid (?room\<lparr>timerInterval := False\<rparr>) rs) lid"
    using h Some by (simp add: room_holds_def count_ok_def)
  have 2: "room_holds count_ok (AList.update lid ?room rs) lid"
    using h Some by (simp add: room_holds_def count_ok_def)
  show ?thesis
    using Some count_processRound [OF 1] 2
    by (simp add: timer_tick_def Let_def split_beta)
qed

text \<open>Eliminations set the flag and raise the counter together.\<close>

lemma count_processScoring:
  assumes "room_holds count_ok rs lid" and "room_holds room_wf rs lid"
  shows "room_holds count_ok (fst (processScoring rs lid winnerId isExactMatch)) lid"
proof (cases "getRoom rs lid")
  case None
  then show ?thesis by (simp add: processScoring_def room_holds_def)
next
  case (Some room0)
  with assms have ok: "count_ok room0" and wf: "room_wf room0" by (simp_all add: room_holds_def)
  define g :: "player \<Rightarrow> player" where
    "g = (\<lambda>player. case applyScoreChanges (players room0) winnerId isExactMatch
                               (activeRules room0) (userId player) of
                          Some u \<Rightarrow> player\<lparr>score := newScore u\<rparr>
                        | None \<Rightarrow> player)"
  define room1 where "room1 = room0\<lparr>phase := Scoring, players := map g (players room0)\<rparr>"
  have g: "userId (g x) = userId x" "isEliminated (g x) = isEliminated x" for x
    by (simp_all add: g_def split: option.splits)
  have d: "distinct (map userId (players room1))"
    using wf by (simp add: room1_def room_wf_def comp_def g)
  have ok1: "eliminationCount room1 = eliminated (players room1)"
    using ok by (simp add: room1_def count_ok_def g)
  from checkEliminations_targets [OF d]
  have "eliminationCount (eliminate_loop (checkEliminations (players room1)) room1) =
          eliminationCount room1 + length (checkEliminations (players room1)) \<and>
        eliminated (players (eliminate_loop (checkEliminations (players room1)) room1)) =
          eliminated (players room1) + length (checkEliminations (players room1))"
    by (intro eliminate_loop_count d) auto
  with ok1 have "count_ok (eliminate_loop (checkEliminations (players room1)) room1)"
    by (simp add: count_ok_def)
  then show ?thesis
    using Some by (simp add: processScoring_def room_holds_def Let_def room1_def g_def)
qed

lemma count_increment_round:
  "room_holds count_ok rs lid \<Longrightarrow> room_holds count_ok (increment_round rs lid) lid"
  by (auto simp: increment_round_def room_holds_def count_ok_def split: option.splits)

text \<open>
  Every handler and callback keeps the elimination count equal to the number of eliminated
  players, except the departure of a player from a room that is in the waiting or in the
  finished phase.
\<close>

lemma step_count:
  assumes "step s e = Some s'"
    and "room_holds room_wf (registry s) (lobby s)"
    and "room_holds count_ok (registry s) (lobby s)"
    and "\<forall>sid now. e = Leave sid now \<longrightarrow> room_holds active (registry s) (lobby s)"
  shows "room_holds count_ok (registry s') (lobby s')"
proof (cases e)
  case (Join pd now)
  with assms show ?thesis
    by (auto simp: step_def Let_def count_addPlayerToRoom split: if_splits)
next
  case (Rejoin uid sid ready)
  with assms show ?thesis
    by (auto simp: step_def Let_def count_join_lobby_existing split: if_splits)
next
  case (Leave sid now)
  with assms show ?thesis
    by (auto simp: step_def Let_def count_removePlayerFromRoom split: if_splits)
next
  case (ToggleReady uid b)
  with assms show ?thesis
    by (auto simp: step_def Let_def count_toggle_ready split: if_splits option.splits)
next
  case (StartGame gameData playersError now)
  with assms count_startGame [of "registry s" "lobby s" gameData playersError now] show ?thesis
    by (auto simp: step_def Let_def split: if_splits prod.splits sum.splits)
next
  case (ResumeRound rd)
  with assms show ?thesis
    by (auto simp: step_def Let_def count_startRound_resume split: if_splits)
next
  case (Submit uid choice now)
  with assms count_submitChoice [of "registry s" "lobby s" uid choice now] show ?thesis
    by (auto simp: step_def Let_def split: if_splits prod.splits)
next
  case Tick
  with assms count_timer_tick [of "registry s" "lobby s"] show ?thesis
    by (auto simp: step_def Let_def split: if_splits prod.splits option.splits)
next
  case FireRound
  with assms count_processRound [of "registry s" "lobby s"] show ?thesis
    by (auto simp: step_def Let_def split: if_splits)
next
  case (FireScoring i)
  obtain w x where wx: "pendingScoring s ! i = (w, x)" by (cases "pendingScoring s ! i")
  with FireScoring assms count_processScoring [of "registry s" "lobby s" w x] show ?thesis
    by (auto simp: step_def Let_def split: if_splits prod.splits)
next
  case (FireNext now)
  with assms show ?thesis
    by (auto simp: step_def Let_def count_startRound count_increment_round split: if_splits)
next
  case FireEnd
  with assms show ?thesis
    by (auto simp: step_def Let_def count_endGame split: if_splits)
next
  case FireDelete
  with assms show ?thesis
    by (auto simp: step_def Let_def deleteRoom_def room_holds_def split: if_splits)
qed

text \<open>
  C9, at a run of the server in which it fails. After eight rounds won by the only connected player, that
  player submits in the ninth; a second player reconnects and submits before the timeout of
  \<^verbatim>\<open>submitChoice\<close> has run, so that a second timeout is set. The round is processed and
  scored twice. The first scoring sets the timeout of the next round; the second eliminates
  the two other players and sets the timeout of the end of the game. The game ends, the
  player who came back, now eliminated, leaves and is removed from the list of the finished
  room, and the timeout of the next round starts a round: the room is in the submission
  phase with an elimination count of 2 and one eliminated player in its list.
\<close>

theorem eliminationCount_race:
  "reachable double_round_state \<and>
   map_option phase (getRoom (registry double_round_state) (lobby double_round_state)) =
     Some Submission \<and>
   map_option eliminationCount
     (getRoom (registry double_round_state) (lobby double_round_state)) = Some 2 \<and>
   map_option eliminated
     (map_option players (getRoom (registry double_round_state) (lobby double_round_state))) =
     Some 1"
proof (intro conjI)
  have "run double_round example_initial \<noteq> None" by code_simp
  then have "run double_round example_initial = Some double_round_state"
    by (auto simp: double_round_state_def)
  with reachable_example_initial show "reachable double_round_state"
    by (rule run_reachable)
next
  show "map_option phase (getRoom (registry double_round_state) (lobby double_round_state)) =
     Some Submission"
    by code_simp
next
  show "map_option eliminationCount
     (getRoom (registry double_round_state) (lobby double_round_state)) = Some 2"
    by code_simp
next
  show "map_option eliminated
     (map_option players (getRoom (registry double_round_state) (lobby double_round_state))) =
     Some 1"
    by code_simp
qed

end
